theory Spec2Isabelle
  imports Main "HOL-Library.Sublist"
begin

section \<open>The C++ operations Dispenser.cpp relies on\<close>

text \<open>
  Dispenser.cpp computes with the C++ type \<open>int\<close> (32 bits, two's complement) and with a
  \<open>std::vector<Hopper*>\<close>. Values of type \<open>int\<close> are modelled as HOL integers; every
  operation whose C++ meaning is undefined for some operands (a remainder by zero, a
  signed overflow, a subscript or an iterator outside the vector) is a branch of the
  model that yields the kind of undefined behaviour instead of a value.
\<close>

definition INT_MAX :: int where
  "INT_MAX = 2147483647"

definition INT_MIN :: int where
  "INT_MIN = - 2147483648"

datatype undefined_behaviour =
    DivisionByZero
  | SignedOverflow
  | InvalidSubscript
  | InvalidIterator

text \<open>
  The built-in \<open>a / b\<close> on \<open>int\<close> truncates its quotient towards zero, and \<open>a % b\<close> is
  \<open>a - (a / b) * b\<close>, so a non-zero remainder has the sign of \<open>a\<close>. \<open>a % 0\<close> is undefined,
  and so is \<open>INT_MIN % -1\<close> (its quotient is not representable).
\<close>

definition int_quot :: "int \<Rightarrow> int \<Rightarrow> int" where
  "int_quot a b = sgn a * sgn b * (\<bar>a\<bar> div \<bar>b\<bar>)"

definition int_rem :: "int \<Rightarrow> int \<Rightarrow> undefined_behaviour + int" where
  "int_rem a b =
     (if b = 0 then Inl DivisionByZero
      else if a = INT_MIN \<and> b = - 1 then Inl SignedOverflow
      else Inr (a - int_quot a b * b))"

definition representable :: "int \<Rightarrow> bool" where
  "representable x = (INT_MIN \<le> x \<and> x \<le> INT_MAX)"

text \<open>\<open>a + b\<close> on \<open>int\<close> (also \<open>a++\<close>, with \<open>b = 1\<close>): undefined when the sum is not representable.\<close>

definition int_add :: "int \<Rightarrow> int \<Rightarrow> undefined_behaviour + int" where
  "int_add a b = (if representable (a + b) then Inr (a + b) else Inl SignedOverflow)"

text \<open>
  \<open>int position = distance(...)\<close> narrows a \<open>ptrdiff_t\<close> to \<open>int\<close>: the value is reduced
  modulo \<open>2^32\<close> into the range of \<open>int\<close>.
\<close>

definition narrow_to_int :: "int \<Rightarrow> int" where
  "narrow_to_int n = (n + 2147483648) mod 4294967296 - 2147483648"

text \<open>
  \<open>v[k]\<close>, \<open>v.erase(v.begin() + k)\<close> and \<open>v.insert(v.begin() + k, x)\<close> on a vector. The
  subscript and the erased position must name an element; the insert position may also be
  the end of the vector. Anything else is undefined.
\<close>

definition vector_subscript :: "'h list \<Rightarrow> int \<Rightarrow> undefined_behaviour + 'h" where
  "vector_subscript v k =
     (if 0 \<le> k \<and> k < int (length v) then Inr (v ! nat k) else Inl InvalidSubscript)"

definition vector_erase :: "'h list \<Rightarrow> int \<Rightarrow> undefined_behaviour + 'h list" where
  "vector_erase v k =
     (if 0 \<le> k \<and> k < int (length v)
      then Inr (take (nat k) v @ drop (Suc (nat k)) v)
      else Inl InvalidIterator)"

definition vector_insert :: "'h list \<Rightarrow> int \<Rightarrow> 'h \<Rightarrow> undefined_behaviour + 'h list" where
  "vector_insert v k x =
     (if 0 \<le> k \<and> k \<le> int (length v)
      then Inr (take (nat k) v @ x # drop (nat k) v)
      else Inl InvalidIterator)"

text \<open>
  \<open>distance(v.begin(), std::find(v.begin(), v.end(), x))\<close>: the offset of the first element
  equal to \<open>x\<close>, or the length of the vector when there is none.
\<close>

fun find_distance :: "'h list \<Rightarrow> 'h \<Rightarrow> nat" where
  "find_distance [] x = 0"
| "find_distance (y # ys) x = (if y = x then 0 else Suc (find_distance ys x))"


section \<open>The Dispenser class\<close>

text \<open>
  Modelled from the spec: the class declaration (dispenser.hpp) is not among the sources.
  The three data members are the ones the member functions of Dispenser.cpp read and
  write, and section 3 of the spec lists them: \<open>hoppers\<close> (a \<open>vector<Hopper*>\<close>, the
  sequence), \<open>size\<close> (an \<open>int\<close>, the cached count, here \<open>size_field\<close>) and \<open>current_index\<close>
  (an \<open>int\<close>). A \<open>Hopper*\<close> is an opaque handle compared by identity: the type \<open>'h\<close>.
\<close>

record 'h Dispenser =
  hoppers :: "'h list"
  size_field :: int
  current_index :: int

text \<open>
  What a call of a member function does: it returns a value and leaves the object in a
  state, or it throws \<open>out_of_range("Error: No hoppers available.")\<close> (the only exception
  of the file; the spec calls it EmptyCollection) and leaves the object in a state, or
  its behaviour is undefined.
\<close>

datatype ('a, 's) outcome =
    Returns 'a 's
  | Throws 's
  | Undefined undefined_behaviour

fun throws :: "('a, 's) outcome \<Rightarrow> bool" where
  "throws (Throws s) = True"
| "throws (Returns a s) = False"
| "throws (Undefined u) = False"

text \<open>The invariant of section 3 of the spec: the cached count is the sequence's length.\<close>

definition size_invariant :: "'h Dispenser \<Rightarrow> bool" where
  "size_invariant d = (size_field d = int (length (hoppers d)))"

text \<open>\<open>Dispenser::Dispenser()\<close>; the vector member is default-constructed, so empty.\<close>

definition Dispenser_ctor :: "'h Dispenser" where
  "Dispenser_ctor = \<lparr>hoppers = [], size_field = 0, current_index = 0\<rparr>"

definition getCurrentIndex :: "'h Dispenser \<Rightarrow> int" where
  "getCurrentIndex d = current_index d"

definition getSize :: "'h Dispenser \<Rightarrow> int" where
  "getSize d = size_field d"

text \<open>\<open>Hopper* Dispenser::getHopper(int index)\<close>\<close>

definition getHopper :: "'h Dispenser \<Rightarrow> int \<Rightarrow> ('h, 'h Dispenser) outcome" where
  "getHopper d index =
     (if size_field d = 0 then Throws d
      else case int_rem index (size_field d) of
          Inl u \<Rightarrow> Undefined u
        | Inr k \<Rightarrow>
            (case vector_subscript (hoppers d) k of
                Inl u \<Rightarrow> Undefined u
              | Inr h \<Rightarrow> Returns h d))"

text \<open>\<open>Hopper* Dispenser::getHopper()\<close>\<close>

definition getHopper_current :: "'h Dispenser \<Rightarrow> ('h, 'h Dispenser) outcome" where
  "getHopper_current d =
     (if size_field d = 0 then Throws d else getHopper d (current_index d))"

text \<open>\<open>int Dispenser::setCurrentIndex(int new_index)\<close>\<close>

definition setCurrentIndex :: "'h Dispenser \<Rightarrow> int \<Rightarrow> (int, 'h Dispenser) outcome" where
  "setCurrentIndex d new_index =
     (if size_field d = 0 then Throws d
      else case int_rem new_index (size_field d) of
          Inl u \<Rightarrow> Undefined u
        | Inr k \<Rightarrow> Returns k (d\<lparr>current_index := k\<rparr>))"

text \<open>\<open>int Dispenser::nextIndex()\<close>\<close>

definition nextIndex :: "'h Dispenser \<Rightarrow> (int, 'h Dispenser) outcome" where
  "nextIndex d =
     (if size_field d = 0 then Throws d
      else case int_add (current_index d) 1 of
          Inl u \<Rightarrow> Undefined u
        | Inr s \<Rightarrow>
            (case int_rem s (size_field d) of
                Inl u \<Rightarrow> Undefined u
              | Inr k \<Rightarrow> Returns k (d\<lparr>current_index := k\<rparr>)))"

text \<open>
  \<open>softServoWrite(pin, value)\<close> belongs to the servo library; a call is recorded as the
  pair of its arguments, and a member function that drives the servos returns the calls it
  made, in order.
\<close>

type_synonym servo_write = "int \<times> int"

text \<open>
  \<open>for (int i = ...; i < this->size; i++) softServoWrite(i, v);\<close> from the value \<open>i\<close> on.
  \<open>i++\<close> runs only while \<open>i < size\<close>, so it cannot overflow.
\<close>

function servo_loop :: "int \<Rightarrow> int \<Rightarrow> int \<Rightarrow> servo_write list" where
  "servo_loop i n v = (if i < n then (i, v) # servo_loop (i + 1) n v else [])"
  by pat_completeness auto
termination
  by (relation "measure (\<lambda>(i, n, v). nat (n - i))") auto

declare servo_loop.simps [simp del]

text \<open>\<open>void Dispenser::openDispenser()\<close>\<close>

definition openDispenser :: "'h Dispenser \<Rightarrow> (servo_write list, 'h Dispenser) outcome" where
  "openDispenser d =
     (if size_field d = 0 then Throws d
      else if current_index d = 4 then Returns (servo_loop 0 (size_field d) 60) d
      else case int_add (current_index d) 5 of
          Inl u \<Rightarrow> Undefined u
        | Inr pin \<Rightarrow> Returns [(pin, 60)] d)"

text \<open>\<open>void Dispenser::closeDispenser()\<close>\<close>

definition closeDispenser :: "'h Dispenser \<Rightarrow> (servo_write list, 'h Dispenser) outcome" where
  "closeDispenser d =
     (if size_field d = 0 then Throws d
      else if current_index d = 4 then Returns (servo_loop 0 (size_field d) 0) d
      else case int_add (current_index d) 5 of
          Inl u \<Rightarrow> Undefined u
        | Inr pin \<Rightarrow> Returns [(pin, 0)] d)"

text \<open>
  \<open>int Dispenser::addHopper(Hopper* new_hopper, int index)\<close>. The guard comes first; the
  append branch pushes and then increments \<open>size\<close>; the other branch increments \<open>size\<close>,
  takes the remainder by the new \<open>size\<close> and inserts there. Both return \<open>index % size\<close>
  with the new \<open>size\<close>.
\<close>

definition addHopper_at :: "'h Dispenser \<Rightarrow> 'h \<Rightarrow> int \<Rightarrow> (int, 'h Dispenser) outcome" where
  "addHopper_at d new_hopper index =
     (if size_field d = 0 then Throws d
      else if index = size_field d then
        (case int_add (size_field d) 1 of
            Inl u \<Rightarrow> Undefined u
          | Inr n \<Rightarrow>
              (case int_rem index n of
                  Inl u \<Rightarrow> Undefined u
                | Inr r \<Rightarrow>
                    Returns r (d\<lparr>hoppers := hoppers d @ [new_hopper], size_field := n\<rparr>)))
      else
        (case int_add (size_field d) 1 of
            Inl u \<Rightarrow> Undefined u
          | Inr n \<Rightarrow>
              (case int_rem index n of
                  Inl u \<Rightarrow> Undefined u
                | Inr insert_index \<Rightarrow>
                    (case vector_insert (hoppers d) insert_index new_hopper of
                        Inl u \<Rightarrow> Undefined u
                      | Inr v \<Rightarrow>
                          (case int_rem index n of
                              Inl u \<Rightarrow> Undefined u
                            | Inr r \<Rightarrow> Returns r (d\<lparr>hoppers := v, size_field := n\<rparr>))))))"

text \<open>\<open>int Dispenser::addHopper(Hopper* new_hopper)\<close>\<close>

definition addHopper :: "'h Dispenser \<Rightarrow> 'h \<Rightarrow> (int, 'h Dispenser) outcome" where
  "addHopper d new_hopper = addHopper_at d new_hopper (size_field d)"

text \<open>
  \<open>void Dispenser::removeHopper(int index)\<close>: one statement, the erase at
  \<open>index % this->size\<close>. The member \<open>size\<close> is not assigned.
\<close>

definition removeHopper :: "'h Dispenser \<Rightarrow> int \<Rightarrow> (unit, 'h Dispenser) outcome" where
  "removeHopper d index =
     (case int_rem index (size_field d) of
         Inl u \<Rightarrow> Undefined u
       | Inr k \<Rightarrow>
           (case vector_erase (hoppers d) k of
               Inl u \<Rightarrow> Undefined u
             | Inr v \<Rightarrow> Returns () (d\<lparr>hoppers := v\<rparr>)))"

text \<open>\<open>void Dispenser::removeHopper(Hopper* hopper)\<close>\<close>

definition removeHopper_ptr :: "'h Dispenser \<Rightarrow> 'h \<Rightarrow> (unit, 'h Dispenser) outcome" where
  "removeHopper_ptr d hopper =
     removeHopper d (narrow_to_int (int (find_distance (hoppers d) hopper)))"


text \<open>
  The state a call leaves the object in, whether it returns or throws; there is none
  after undefined behaviour.
\<close>

fun final_state :: "('a, 's) outcome \<Rightarrow> 's option" where
  "final_state (Returns a s) = Some s"
| "final_state (Throws s) = Some s"
| "final_state (Undefined u) = None"


section \<open>Auxiliary facts\<close>

lemma int_rem_nonneg:
  assumes "0 \<le> a" and "0 < b"
  shows "int_rem a b = Inr (a mod b)"
proof -
  have "a - int_quot a b * b = a mod b"
  proof (cases "a = 0")
    case True
    then show ?thesis by (simp add: int_quot_def)
  next
    case False
    with assms have "int_quot a b = a div b" by (simp add: int_quot_def)
    then show ?thesis by (simp add: minus_div_mult_eq_mod)
  qed
  moreover from assms have "b \<noteq> 0" and "b \<noteq> - 1" by simp_all
  ultimately show ?thesis by (simp add: int_rem_def)
qed

lemma int_rem_neg:
  assumes "a < 0" and "0 < b"
  shows "int_rem a b = Inr (- ((- a) mod b))"
proof -
  from assms have "int_quot a b = - ((- a) div b)" by (simp add: int_quot_def)
  then have "a - int_quot a b * b = - ((- a) - ((- a) div b) * b)" by (simp add: algebra_simps)
  also have "\<dots> = - ((- a) mod b)" by (simp add: minus_div_mult_eq_mod)
  finally have "a - int_quot a b * b = - ((- a) mod b)" .
  moreover from assms have "b \<noteq> 0" and "b \<noteq> - 1" by simp_all
  ultimately show ?thesis by (simp add: int_rem_def)
qed

lemma int_rem_self_Suc:
  assumes "0 < n" and "n < INT_MAX"
  shows "int_add n 1 = Inr (n + 1)" and "int_rem n (n + 1) = Inr n"
proof -
  from assms show "int_add n 1 = Inr (n + 1)"
    by (simp add: int_add_def representable_def INT_MIN_def INT_MAX_def)
  from assms have "int_rem n (n + 1) = Inr (n mod (n + 1))"
    by (simp add: int_rem_nonneg)
  with assms show "int_rem n (n + 1) = Inr n" by simp
qed

lemma addHopper_at_returns:
  assumes "size_invariant d" and "0 < size_field d" and "size_field d < INT_MAX"
    and "0 \<le> index"
  shows "addHopper_at d h index =
           Returns (index mod (size_field d + 1))
             (d\<lparr>hoppers := take (nat (index mod (size_field d + 1))) (hoppers d)
                              @ h # drop (nat (index mod (size_field d + 1))) (hoppers d),
                 size_field := size_field d + 1\<rparr>)"
proof -
  from assms have add: "int_add (size_field d) 1 = Inr (size_field d + 1)"
    by (simp add: int_rem_self_Suc)
  from assms have rem: "int_rem index (size_field d + 1) = Inr (index mod (size_field d + 1))"
    by (simp add: int_rem_nonneg)
  from assms have len: "int (length (hoppers d)) = size_field d"
    by (simp add: size_invariant_def)
  show ?thesis
  proof (cases "index = size_field d")
    case True
    with assms have "index mod (size_field d + 1) = size_field d" by simp
    moreover from len have "nat (size_field d) = length (hoppers d)" by simp
    ultimately show ?thesis
      using True assms add rem by (simp add: addHopper_at_def)
  next
    case False
    from assms have "0 < size_field d + 1" by simp
    then have "0 \<le> index mod (size_field d + 1)"
      and "index mod (size_field d + 1) < size_field d + 1"
      by (rule pos_mod_sign, rule pos_mod_bound)
    with len have "vector_insert (hoppers d) (index mod (size_field d + 1)) h =
        Inr (take (nat (index mod (size_field d + 1))) (hoppers d)
              @ h # drop (nat (index mod (size_field d + 1))) (hoppers d))"
      by (simp add: vector_insert_def)
    with False assms add rem show ?thesis by (simp add: addHopper_at_def)
  qed
qed

lemma subseq_delete_nth: "subseq (take k xs @ drop (Suc k) xs) xs"
proof (induction xs arbitrary: k)
  case Nil
  show ?case by simp
next
  case (Cons x xs)
  show ?case
  proof (cases k)
    case 0
    then show ?thesis by auto
  next
    case (Suc j)
    with Cons [of j] show ?thesis by simp
  qed
qed

lemma find_distance_absent: "x \<notin> set v \<Longrightarrow> find_distance v x = length v"
  by (induction v) auto

lemma find_distance_present:
  "x \<in> set v \<Longrightarrow> find_distance v x < length v
     \<and> take (find_distance v x) v @ drop (Suc (find_distance v x)) v = remove1 x v"
  by (induction v) auto

lemma servo_loop_upto: "servo_loop i n v = map (\<lambda>j. (j, v)) [i..n - 1]"
proof (induction i n v rule: servo_loop.induct)
  case (1 i n v)
  show ?case
  proof (cases "i < n")
    case True
    then have "[i..n - 1] = i # [i + 1..n - 1]" by (simp add: upto_rec1)
    with True 1 show ?thesis by (simp add: servo_loop.simps [of i n v])
  next
    case False
    then show ?thesis by (simp add: servo_loop.simps [of i n v])
  qed
qed


section \<open>Removal by index\<close>

text \<open>
  C1, as the code has it. On a registry whose \<open>size\<close> is positive and equals the length of
  the sequence, \<open>removeHopper(index)\<close> with \<open>index \<ge> 0\<close> erases the element at position
  \<open>index mod size\<close>: the sequence is one element shorter, and what remains is a
  subsequence of the old sequence, so the other hoppers keep their relative order.
\<close>

theorem removeHopper_erases:
  assumes "size_invariant d" and "0 < size_field d" and "0 \<le> index"
  shows "let k = nat (index mod size_field d);
             v = take k (hoppers d) @ drop (Suc k) (hoppers d)
         in removeHopper d index = Returns () (d\<lparr>hoppers := v\<rparr>)
            \<and> Suc (length v) = length (hoppers d)
            \<and> subseq v (hoppers d)"
proof -
  define k where "k = nat (index mod size_field d)"
  from assms have rem: "int_rem index (size_field d) = Inr (index mod size_field d)"
    by (simp add: int_rem_nonneg)
  from assms have lo: "0 \<le> index mod size_field d"
    and hi: "index mod size_field d < int (length (hoppers d))"
    by (simp_all add: size_invariant_def)
  then have klt: "k < length (hoppers d)" by (simp add: k_def nat_less_iff)
  from lo hi have "removeHopper d index =
      Returns () (d\<lparr>hoppers := take k (hoppers d) @ drop (Suc k) (hoppers d)\<rparr>)"
    by (simp add: removeHopper_def rem vector_erase_def k_def)
  moreover from klt
  have "Suc (length (take k (hoppers d) @ drop (Suc k) (hoppers d))) = length (hoppers d)"
    by simp
  ultimately show ?thesis
    by (simp add: Let_def k_def [symmetric] subseq_delete_nth)
qed

text \<open>
  The theorem at a registry of three hoppers and the index 4: position \<open>4 mod 3 = 1\<close> is
  erased.
\<close>

theorem removeHopper_erases_witness:
  "size_invariant \<lparr>hoppers = [10, 20, 30 :: nat], size_field = 3, current_index = 0\<rparr>
   \<and> 0 < size_field \<lparr>hoppers = [10, 20, 30 :: nat], size_field = 3, current_index = 0\<rparr>
   \<and> (0 :: int) \<le> 4
   \<and> removeHopper \<lparr>hoppers = [10, 20, 30 :: nat], size_field = 3, current_index = 0\<rparr> 4
       = Returns () \<lparr>hoppers = [10, 30], size_field = 3, current_index = 0\<rparr>
   \<and> subseq [10, 30 :: nat] [10, 20, 30]"
  using removeHopper_erases
    [of "\<lparr>hoppers = [10, 20, 30 :: nat], size_field = 3, current_index = 0\<rparr>" 4]
  by (simp add: size_invariant_def Let_def)

text \<open>
  C1 as stated fails twice on a registry of three hoppers. With the index \<open>-1\<close> the
  remainder \<open>-1 % 3\<close> is \<open>-1\<close> and the erase position lies before the sequence. With the
  index 1 the element is erased, but \<open>getSize()\<close> is 3 before the call and 3 after it.
\<close>

theorem removeHopper_counterexample:
  "removeHopper \<lparr>hoppers = [10, 20, 30 :: nat], size_field = 3, current_index = 0\<rparr> (- 1)
     = Undefined InvalidIterator
   \<and> removeHopper \<lparr>hoppers = [10, 20, 30 :: nat], size_field = 3, current_index = 0\<rparr> 1
     = Returns () \<lparr>hoppers = [10, 30], size_field = 3, current_index = 0\<rparr>
   \<and> getSize \<lparr>hoppers = [10, 20, 30 :: nat], size_field = 3, current_index = 0\<rparr> = 3
   \<and> getSize \<lparr>hoppers = [10, 30 :: nat], size_field = 3, current_index = 0\<rparr> = 3"
  by (simp add: removeHopper_def int_rem_def int_quot_def INT_MIN_def vector_erase_def
      getSize_def)


section \<open>The cached size\<close>

text \<open>
  C2. \<open>removeHopper\<close> does not keep \<open>size\<close> equal to the length of the sequence: on a
  registry of one hopper, where the invariant holds, \<open>removeHopper(0)\<close> empties the
  sequence and leaves \<open>size\<close> at 1.
\<close>

theorem removeHopper_stale_size:
  "size_invariant \<lparr>hoppers = [10 :: nat], size_field = 1, current_index = 0\<rparr>
   \<and> removeHopper \<lparr>hoppers = [10 :: nat], size_field = 1, current_index = 0\<rparr> 0
       = Returns () \<lparr>hoppers = [], size_field = 1, current_index = 0\<rparr>
   \<and> \<not> size_invariant \<lparr>hoppers = [] :: nat list, size_field = 1, current_index = 0\<rparr>
   \<and> getSize \<lparr>hoppers = [] :: nat list, size_field = 1, current_index = 0\<rparr> = 1"
  by (simp add: removeHopper_def int_rem_def int_quot_def INT_MIN_def vector_erase_def
      getSize_def size_invariant_def)


text \<open>
  The constructor establishes the invariant, and every other member function keeps it,
  whether it returns or throws.
\<close>

lemma size_invariant_kept:
  assumes "size_invariant d"
  shows "size_invariant (Dispenser_ctor :: 'h Dispenser)
       \<and> (final_state (getHopper d index) = Some s \<longrightarrow> size_invariant s)
       \<and> (final_state (getHopper_current d) = Some s \<longrightarrow> size_invariant s)
       \<and> (final_state (setCurrentIndex d index) = Some s \<longrightarrow> size_invariant s)
       \<and> (final_state (nextIndex d) = Some s \<longrightarrow> size_invariant s)
       \<and> (final_state (openDispenser d) = Some s \<longrightarrow> size_invariant s)
       \<and> (final_state (closeDispenser d) = Some s \<longrightarrow> size_invariant s)
       \<and> (final_state (addHopper_at d h index) = Some s \<longrightarrow> size_invariant s)
       \<and> (final_state (addHopper d h) = Some s \<longrightarrow> size_invariant s)"
proof (intro conjI)
  show "size_invariant (Dispenser_ctor :: 'h Dispenser)"
    by (simp add: size_invariant_def Dispenser_ctor_def)
  show "final_state (getHopper d index) = Some s \<longrightarrow> size_invariant s"
    using assms by (auto simp: getHopper_def split: sum.splits if_splits)
  show "final_state (getHopper_current d) = Some s \<longrightarrow> size_invariant s"
    using assms by (auto simp: getHopper_current_def getHopper_def split: sum.splits if_splits)
  show "final_state (setCurrentIndex d index) = Some s \<longrightarrow> size_invariant s"
    using assms by (auto simp: setCurrentIndex_def size_invariant_def split: sum.splits if_splits)
  show "final_state (nextIndex d) = Some s \<longrightarrow> size_invariant s"
    using assms by (auto simp: nextIndex_def size_invariant_def split: sum.splits if_splits)
  show "final_state (openDispenser d) = Some s \<longrightarrow> size_invariant s"
    using assms by (auto simp: openDispenser_def split: sum.splits if_splits)
  show "final_state (closeDispenser d) = Some s \<longrightarrow> size_invariant s"
    using assms by (auto simp: closeDispenser_def split: sum.splits if_splits)
  show ins: "final_state (addHopper_at d h index) = Some s \<longrightarrow> size_invariant s" for index
    using assms
    by (auto simp: addHopper_at_def int_add_def vector_insert_def size_invariant_def
        split: sum.splits if_splits)
  show "final_state (addHopper d h) = Some s \<longrightarrow> size_invariant s"
    using ins [of "size_field d"] by (simp add: addHopper_def)
qed


section \<open>Appending a hopper\<close>

text \<open>
  C3, as the code has it. \<open>addHopper(h)\<close> calls \<open>addHopper(h, size)\<close>, whose emptiness
  guard comes before the test for the append index: on a registry with \<open>size = 0\<close> the
  call throws and changes nothing. On a registry whose \<open>size\<close> is positive, below
  \<open>INT_MAX\<close> and equal to the length of the sequence, it returns the old \<open>size\<close>, appends
  \<open>h\<close>, increases \<open>size\<close> by one, and \<open>getHopper(size - 1)\<close> then returns \<open>h\<close>.
\<close>

theorem addHopper_appends:
  "(size_field d = 0 \<longrightarrow> addHopper d h = Throws d)
   \<and> (size_invariant d \<and> 0 < size_field d \<and> size_field d < INT_MAX \<longrightarrow>
        (let d' = d\<lparr>hoppers := hoppers d @ [h], size_field := size_field d + 1\<rparr>
         in addHopper d h = Returns (size_field d) d'
            \<and> getSize d' = getSize d + 1
            \<and> getHopper d' (getSize d' - 1) = Returns h d'))"
proof (intro conjI impI)
  assume "size_field d = 0"
  then show "addHopper d h = Throws d" by (simp add: addHopper_def addHopper_at_def)
next
  assume a: "size_invariant d \<and> 0 < size_field d \<and> size_field d < INT_MAX"
  define d' where "d' = d\<lparr>hoppers := hoppers d @ [h], size_field := size_field d + 1\<rparr>"
  from a have add: "addHopper d h = Returns (size_field d) d'"
    by (simp add: addHopper_def addHopper_at_def int_rem_self_Suc d'_def)
  have sz: "getSize d' = getSize d + 1" by (simp add: getSize_def d'_def)
  from a have len: "nat (size_field d) = length (hoppers d)" by (simp add: size_invariant_def)
  from a have "int_rem (size_field d) (size_field d + 1) = Inr (size_field d)"
    by (simp add: int_rem_self_Suc)
  with a len have "getHopper d' (getSize d' - 1) = Returns h d'"
    by (simp add: getHopper_def getSize_def d'_def vector_subscript_def size_invariant_def)
  with add sz
  show "let d' = d\<lparr>hoppers := hoppers d @ [h], size_field := size_field d + 1\<rparr>
        in addHopper d h = Returns (size_field d) d'
           \<and> getSize d' = getSize d + 1
           \<and> getHopper d' (getSize d' - 1) = Returns h d'"
    by (simp add: Let_def d'_def)
qed

text \<open>
  The theorem at the constructed registry, where the call throws, and at a registry of two
  hoppers, where the third is appended.
\<close>

theorem addHopper_appends_witness:
  "size_field (Dispenser_ctor :: nat Dispenser) = 0
   \<and> addHopper (Dispenser_ctor :: nat Dispenser) 7 = Throws Dispenser_ctor
   \<and> size_invariant \<lparr>hoppers = [10, 20 :: nat], size_field = 2, current_index = 0\<rparr>
   \<and> 0 < size_field \<lparr>hoppers = [10, 20 :: nat], size_field = 2, current_index = 0\<rparr>
   \<and> size_field \<lparr>hoppers = [10, 20 :: nat], size_field = 2, current_index = 0\<rparr> < INT_MAX
   \<and> addHopper \<lparr>hoppers = [10, 20 :: nat], size_field = 2, current_index = 0\<rparr> 30
       = Returns 2 \<lparr>hoppers = [10, 20, 30], size_field = 3, current_index = 0\<rparr>
   \<and> getHopper \<lparr>hoppers = [10, 20, 30 :: nat], size_field = 3, current_index = 0\<rparr> (3 - 1)
       = Returns 30 \<lparr>hoppers = [10, 20, 30], size_field = 3, current_index = 0\<rparr>"
  using addHopper_appends [of "Dispenser_ctor :: nat Dispenser" 7]
    addHopper_appends
      [of "\<lparr>hoppers = [10, 20 :: nat], size_field = 2, current_index = 0\<rparr>" 30]
  by (simp add: Dispenser_ctor_def size_invariant_def INT_MAX_def getSize_def Let_def)

text \<open>
  C3 as stated fails on the registry the constructor builds: \<open>addHopper(h)\<close> throws there.
\<close>

theorem addHopper_empty_counterexample:
  "getSize (Dispenser_ctor :: nat Dispenser) = 0
   \<and> addHopper (Dispenser_ctor :: nat Dispenser) 7 = Throws Dispenser_ctor"
  by (simp add: addHopper_def addHopper_at_def Dispenser_ctor_def getSize_def)


section \<open>The emptiness guard\<close>

text \<open>
  C4. Each of \<open>getHopper(index)\<close>, \<open>getHopper()\<close>, \<open>setCurrentIndex\<close>, \<open>nextIndex\<close>,
  \<open>openDispenser\<close>, \<open>closeDispenser\<close> and \<open>addHopper(h, index)\<close> throws exactly when the
  count \<open>getSize()\<close> reports is zero; on a registry whose \<open>size\<close> equals the length of its
  sequence that is exactly when the sequence holds no hopper.
\<close>

theorem throws_iff_size_zero:
  "(throws (getHopper d index) \<longleftrightarrow> getSize d = 0)
   \<and> (throws (getHopper_current d) \<longleftrightarrow> getSize d = 0)
   \<and> (throws (setCurrentIndex d index) \<longleftrightarrow> getSize d = 0)
   \<and> (throws (nextIndex d) \<longleftrightarrow> getSize d = 0)
   \<and> (throws (openDispenser d) \<longleftrightarrow> getSize d = 0)
   \<and> (throws (closeDispenser d) \<longleftrightarrow> getSize d = 0)
   \<and> (throws (addHopper_at d h index) \<longleftrightarrow> getSize d = 0)
   \<and> (size_invariant d \<longrightarrow> (getSize d = 0 \<longleftrightarrow> hoppers d = []))"
proof (intro conjI)
  show "throws (getHopper d index) \<longleftrightarrow> getSize d = 0"
    by (simp add: getHopper_def getSize_def split: sum.splits)
  then show "throws (getHopper_current d) \<longleftrightarrow> getSize d = 0"
    by (simp add: getHopper_current_def getHopper_def getSize_def split: sum.splits)
  show "throws (setCurrentIndex d index) \<longleftrightarrow> getSize d = 0"
    by (simp add: setCurrentIndex_def getSize_def split: sum.splits)
  show "throws (nextIndex d) \<longleftrightarrow> getSize d = 0"
    by (simp add: nextIndex_def getSize_def split: sum.splits)
  show "throws (openDispenser d) \<longleftrightarrow> getSize d = 0"
    by (simp add: openDispenser_def getSize_def split: sum.splits)
  show "throws (closeDispenser d) \<longleftrightarrow> getSize d = 0"
    by (simp add: closeDispenser_def getSize_def split: sum.splits)
  show "throws (addHopper_at d h index) \<longleftrightarrow> getSize d = 0"
    by (simp add: addHopper_at_def getSize_def split: sum.splits)
  show "size_invariant d \<longrightarrow> (getSize d = 0 \<longleftrightarrow> hoppers d = [])"
    by (simp add: size_invariant_def getSize_def)
qed

text \<open>
  The theorem at the constructed registry, where all seven throw, and at a registry of
  three hoppers, where none does.
\<close>

theorem throws_iff_size_zero_witness:
  "size_invariant (Dispenser_ctor :: nat Dispenser)
   \<and> hoppers (Dispenser_ctor :: nat Dispenser) = []
   \<and> throws (getHopper (Dispenser_ctor :: nat Dispenser) 2)
   \<and> throws (getHopper_current (Dispenser_ctor :: nat Dispenser))
   \<and> throws (setCurrentIndex (Dispenser_ctor :: nat Dispenser) 2)
   \<and> throws (nextIndex (Dispenser_ctor :: nat Dispenser))
   \<and> throws (openDispenser (Dispenser_ctor :: nat Dispenser))
   \<and> throws (closeDispenser (Dispenser_ctor :: nat Dispenser))
   \<and> throws (addHopper_at (Dispenser_ctor :: nat Dispenser) 7 2)
   \<and> size_invariant \<lparr>hoppers = [10, 20, 30 :: nat], size_field = 3, current_index = 0\<rparr>
   \<and> \<not> throws (getHopper \<lparr>hoppers = [10, 20, 30 :: nat], size_field = 3, current_index = 0\<rparr> 2)
   \<and> \<not> throws (addHopper_at \<lparr>hoppers = [10, 20, 30 :: nat], size_field = 3, current_index = 0\<rparr> 7 2)"
  using throws_iff_size_zero [of "Dispenser_ctor :: nat Dispenser" 2 7]
    throws_iff_size_zero
      [of "\<lparr>hoppers = [10, 20, 30 :: nat], size_field = 3, current_index = 0\<rparr>" 2 7]
  by (simp add: Dispenser_ctor_def size_invariant_def getSize_def)


section \<open>Removal by index on an empty registry\<close>

text \<open>
  C5. \<open>removeHopper(index)\<close> has no emptiness check: it never throws, and it reaches the
  remainder by zero exactly when \<open>size\<close> is 0.
\<close>

theorem removeHopper_division_by_zero:
  "(removeHopper d index = Undefined DivisionByZero \<longleftrightarrow> size_field d = 0)
   \<and> \<not> throws (removeHopper d index)"
  by (auto simp: removeHopper_def int_rem_def vector_erase_def split: sum.splits if_splits)


section \<open>Setting the current index\<close>

text \<open>
  C6, as the code has it. On a registry with \<open>size > 0\<close>, \<open>setCurrentIndex(new_index)\<close>
  stores and returns the C++ remainder \<open>new_index % size\<close>. For \<open>new_index \<ge> 0\<close> that is
  \<open>new_index mod size\<close>, in \<open>[0, size)\<close>; for \<open>new_index < 0\<close> it is
  \<open>- ((- new_index) mod size)\<close>, in \<open>(- size, 0]\<close>.
\<close>

theorem setCurrentIndex_remainder:
  assumes "0 < size_field d"
  shows "let r = (if 0 \<le> new_index then new_index mod size_field d
                  else - ((- new_index) mod size_field d))
         in setCurrentIndex d new_index = Returns r (d\<lparr>current_index := r\<rparr>)
            \<and> (0 \<le> new_index \<longrightarrow> 0 \<le> r \<and> r < size_field d)
            \<and> (new_index < 0 \<longrightarrow> - size_field d < r \<and> r \<le> 0)"
proof (cases "0 \<le> new_index")
  case True
  with assms show ?thesis
    by (simp add: setCurrentIndex_def int_rem_nonneg Let_def)
next
  case False
  then have neg: "new_index < 0" by simp
  from assms have "0 \<le> (- new_index) mod size_field d"
    and "(- new_index) mod size_field d < size_field d"
    by simp_all
  with assms neg show ?thesis
    by (simp add: setCurrentIndex_def int_rem_neg Let_def)
qed

text \<open>
  The theorem at a registry of three hoppers: the index 5 becomes 2, the index \<open>-4\<close>
  becomes \<open>-1\<close>.
\<close>

theorem setCurrentIndex_remainder_witness:
  "0 < size_field \<lparr>hoppers = [10, 20, 30 :: nat], size_field = 3, current_index = 0\<rparr>
   \<and> setCurrentIndex \<lparr>hoppers = [10, 20, 30 :: nat], size_field = 3, current_index = 0\<rparr> 5
       = Returns 2 \<lparr>hoppers = [10, 20, 30], size_field = 3, current_index = 2\<rparr>
   \<and> setCurrentIndex \<lparr>hoppers = [10, 20, 30 :: nat], size_field = 3, current_index = 0\<rparr> (- 4)
       = Returns (- 1) \<lparr>hoppers = [10, 20, 30], size_field = 3, current_index = - 1\<rparr>"
  using setCurrentIndex_remainder
      [of "\<lparr>hoppers = [10, 20, 30 :: nat], size_field = 3, current_index = 0\<rparr>" 5]
    setCurrentIndex_remainder
      [of "\<lparr>hoppers = [10, 20, 30 :: nat], size_field = 3, current_index = 0\<rparr>" "- 4"]
  by (simp add: Let_def)

text \<open>
  C6 as stated fails at the index \<open>-1\<close> on a registry of three hoppers: the call stores and
  returns \<open>-1\<close>, which is neither \<open>-1 mod 3 = 2\<close> nor in \<open>[0, 3)\<close>.
\<close>

theorem setCurrentIndex_negative_counterexample:
  "setCurrentIndex \<lparr>hoppers = [10, 20, 30 :: nat], size_field = 3, current_index = 0\<rparr> (- 1)
     = Returns (- 1) \<lparr>hoppers = [10, 20, 30], size_field = 3, current_index = - 1\<rparr>
   \<and> (- 1 :: int) mod 3 = 2
   \<and> \<not> (0 \<le> (- 1 :: int))"
  by (simp add: setCurrentIndex_def int_rem_def int_quot_def INT_MIN_def)


section \<open>Opening and closing\<close>

text \<open>
  C7. On a registry with \<open>size \<noteq> 0\<close> (and a current index for which \<open>current_index + 5\<close>
  is an \<open>int\<close>): when the current index is 4, \<open>openDispenser\<close> writes the value 60 to every
  channel from 0 to \<open>size - 1\<close>, in this order; otherwise it makes exactly one write, of 60
  to channel \<open>current_index + 5\<close>. \<open>closeDispenser\<close> makes the same writes with the value 0.
  Neither changes the registry.
\<close>

theorem open_close_signals:
  assumes "size_field d \<noteq> 0"
    and "representable (current_index d + 5)"
  shows "openDispenser d =
           Returns (if current_index d = 4
                    then map (\<lambda>channel. (channel, 60)) [0..size_field d - 1]
                    else [(current_index d + 5, 60)]) d
       \<and> closeDispenser d =
           Returns (if current_index d = 4
                    then map (\<lambda>channel. (channel, 0)) [0..size_field d - 1]
                    else [(current_index d + 5, 0)]) d"
  using assms
  by (simp add: openDispenser_def closeDispenser_def int_add_def servo_loop_upto)

text \<open>
  The theorem at a registry of five hoppers standing on index 4, and at a registry of
  three hoppers standing on index 1.
\<close>

theorem open_close_signals_witness:
  "size_field \<lparr>hoppers = [10, 20, 30, 40, 50 :: nat], size_field = 5, current_index = 4\<rparr> \<noteq> 0
   \<and> representable
       (current_index \<lparr>hoppers = [10, 20, 30, 40, 50 :: nat], size_field = 5, current_index = 4\<rparr> + 5)
   \<and> openDispenser \<lparr>hoppers = [10, 20, 30, 40, 50 :: nat], size_field = 5, current_index = 4\<rparr>
       = Returns [(0, 60), (1, 60), (2, 60), (3, 60), (4, 60)]
           \<lparr>hoppers = [10, 20, 30, 40, 50], size_field = 5, current_index = 4\<rparr>
   \<and> closeDispenser \<lparr>hoppers = [10, 20, 30, 40, 50 :: nat], size_field = 5, current_index = 4\<rparr>
       = Returns [(0, 0), (1, 0), (2, 0), (3, 0), (4, 0)]
           \<lparr>hoppers = [10, 20, 30, 40, 50], size_field = 5, current_index = 4\<rparr>
   \<and> size_field \<lparr>hoppers = [10, 20, 30 :: nat], size_field = 3, current_index = 1\<rparr> \<noteq> 0
   \<and> representable
       (current_index \<lparr>hoppers = [10, 20, 30 :: nat], size_field = 3, current_index = 1\<rparr> + 5)
   \<and> openDispenser \<lparr>hoppers = [10, 20, 30 :: nat], size_field = 3, current_index = 1\<rparr>
       = Returns [(6, 60)] \<lparr>hoppers = [10, 20, 30], size_field = 3, current_index = 1\<rparr>
   \<and> closeDispenser \<lparr>hoppers = [10, 20, 30 :: nat], size_field = 3, current_index = 1\<rparr>
       = Returns [(6, 0)] \<lparr>hoppers = [10, 20, 30], size_field = 3, current_index = 1\<rparr>"
proof -
  have five: "[0..(4::int)] = [0, 1, 2, 3, 4]" by code_simp
  have r: "representable 9" "representable 6"
    by (simp_all add: representable_def INT_MIN_def INT_MAX_def)
  show ?thesis
    using open_close_signals
        [of "\<lparr>hoppers = [10, 20, 30, 40, 50 :: nat], size_field = 5, current_index = 4\<rparr>"]
      open_close_signals
        [of "\<lparr>hoppers = [10, 20, 30 :: nat], size_field = 3, current_index = 1\<rparr>"]
    by (simp add: five r)
qed


section \<open>The state after a throw\<close>

text \<open>
  C8. Whenever a member function throws, the registry is in the state it had before the
  call: every throw of the file is the first statement executed. The two \<open>removeHopper\<close>
  forms never throw. The insert \<open>addHopper(h, index)\<close> therefore either throws with the
  state unchanged or, when it returns, has updated both \<open>size\<close> (by one) and the sequence
  (one element longer, \<open>h\<close> in it) and has left the current index alone. It does return,
  with \<open>h\<close> at position \<open>index mod (size + 1)\<close>, for every \<open>index \<ge> 0\<close> on a registry
  whose \<open>size\<close> is positive, below \<open>INT_MAX\<close> and equal to the length of the sequence.
\<close>

theorem throw_leaves_state:
  "(getHopper d index = Throws s \<longrightarrow> s = d)
   \<and> (getHopper_current d = Throws s \<longrightarrow> s = d)
   \<and> (setCurrentIndex d index = Throws s \<longrightarrow> s = d)
   \<and> (nextIndex d = Throws s \<longrightarrow> s = d)
   \<and> (openDispenser d = Throws s \<longrightarrow> s = d)
   \<and> (closeDispenser d = Throws s \<longrightarrow> s = d)
   \<and> (addHopper_at d h index = Throws s \<longrightarrow> s = d)
   \<and> (addHopper d h = Throws s \<longrightarrow> s = d)
   \<and> removeHopper d index \<noteq> Throws s
   \<and> removeHopper_ptr d h \<noteq> Throws s
   \<and> (addHopper_at d h index = Returns r s \<longrightarrow>
         size_field s = size_field d + 1
         \<and> length (hoppers s) = Suc (length (hoppers d))
         \<and> h \<in> set (hoppers s)
         \<and> current_index s = current_index d)
   \<and> (size_invariant d \<and> 0 < size_field d \<and> size_field d < INT_MAX \<and> 0 \<le> index \<longrightarrow>
         addHopper_at d h index =
           Returns (index mod (size_field d + 1))
             (d\<lparr>hoppers := take (nat (index mod (size_field d + 1))) (hoppers d)
                              @ h # drop (nat (index mod (size_field d + 1))) (hoppers d),
                 size_field := size_field d + 1\<rparr>))"
proof (intro conjI)
  show "size_invariant d \<and> 0 < size_field d \<and> size_field d < INT_MAX \<and> 0 \<le> index \<longrightarrow>
         addHopper_at d h index =
           Returns (index mod (size_field d + 1))
             (d\<lparr>hoppers := take (nat (index mod (size_field d + 1))) (hoppers d)
                              @ h # drop (nat (index mod (size_field d + 1))) (hoppers d),
                 size_field := size_field d + 1\<rparr>)"
    by (simp add: addHopper_at_returns)
  show "getHopper d index = Throws s \<longrightarrow> s = d"
    by (auto simp: getHopper_def split: sum.splits if_splits)
  show "getHopper_current d = Throws s \<longrightarrow> s = d"
    by (auto simp: getHopper_current_def getHopper_def split: sum.splits if_splits)
  show "setCurrentIndex d index = Throws s \<longrightarrow> s = d"
    by (auto simp: setCurrentIndex_def split: sum.splits if_splits)
  show "nextIndex d = Throws s \<longrightarrow> s = d"
    by (auto simp: nextIndex_def split: sum.splits if_splits)
  show "openDispenser d = Throws s \<longrightarrow> s = d"
    by (auto simp: openDispenser_def split: sum.splits if_splits)
  show "closeDispenser d = Throws s \<longrightarrow> s = d"
    by (auto simp: closeDispenser_def split: sum.splits if_splits)
  show "addHopper_at d h index = Throws s \<longrightarrow> s = d"
    by (auto simp: addHopper_at_def split: sum.splits if_splits)
  then show "addHopper d h = Throws s \<longrightarrow> s = d"
    by (auto simp: addHopper_def addHopper_at_def split: sum.splits if_splits)
  show "removeHopper d index \<noteq> Throws s"
    by (auto simp: removeHopper_def split: sum.splits)
  show "removeHopper_ptr d h \<noteq> Throws s"
    by (auto simp: removeHopper_ptr_def removeHopper_def split: sum.splits)
  show "addHopper_at d h index = Returns r s \<longrightarrow>
         size_field s = size_field d + 1
         \<and> length (hoppers s) = Suc (length (hoppers d))
         \<and> h \<in> set (hoppers s)
         \<and> current_index s = current_index d"
    by (auto simp: addHopper_at_def int_add_def vector_insert_def split: sum.splits if_splits)
qed

text \<open>
  The theorem at the constructed registry, where the eight guarded functions throw, and at
  a registry of three hoppers, where the insert at index 1 returns.
\<close>

theorem throw_leaves_state_witness:
  "getHopper (Dispenser_ctor :: nat Dispenser) 2 = Throws Dispenser_ctor
   \<and> getHopper_current (Dispenser_ctor :: nat Dispenser) = Throws Dispenser_ctor
   \<and> setCurrentIndex (Dispenser_ctor :: nat Dispenser) 2 = Throws Dispenser_ctor
   \<and> nextIndex (Dispenser_ctor :: nat Dispenser) = Throws Dispenser_ctor
   \<and> openDispenser (Dispenser_ctor :: nat Dispenser) = Throws Dispenser_ctor
   \<and> closeDispenser (Dispenser_ctor :: nat Dispenser) = Throws Dispenser_ctor
   \<and> addHopper_at (Dispenser_ctor :: nat Dispenser) 7 2 = Throws Dispenser_ctor
   \<and> addHopper (Dispenser_ctor :: nat Dispenser) 7 = Throws Dispenser_ctor
   \<and> size_invariant \<lparr>hoppers = [10, 20, 30 :: nat], size_field = 3, current_index = 2\<rparr>
   \<and> 0 < size_field \<lparr>hoppers = [10, 20, 30 :: nat], size_field = 3, current_index = 2\<rparr>
   \<and> size_field \<lparr>hoppers = [10, 20, 30 :: nat], size_field = 3, current_index = 2\<rparr> < INT_MAX
   \<and> (0 :: int) \<le> 1
   \<and> addHopper_at \<lparr>hoppers = [10, 20, 30 :: nat], size_field = 3, current_index = 2\<rparr> 40 1
       = Returns 1 \<lparr>hoppers = [10, 40, 20, 30], size_field = 4, current_index = 2\<rparr>
   \<and> size_field \<lparr>hoppers = [10, 40, 20, 30 :: nat], size_field = 4, current_index = 2\<rparr> = 3 + 1
   \<and> length (hoppers \<lparr>hoppers = [10, 40, 20, 30 :: nat], size_field = 4, current_index = 2\<rparr>)
       = Suc 3"
  using throw_leaves_state
      [where d = "Dispenser_ctor :: nat Dispenser" and s = Dispenser_ctor
        and index = 2 and h = 7]
    throw_leaves_state
      [where d = "\<lparr>hoppers = [10, 20, 30 :: nat], size_field = 3, current_index = 2\<rparr>"
        and s = "\<lparr>hoppers = [10, 40, 20, 30 :: nat], size_field = 4, current_index = 2\<rparr>"
        and index = 1 and h = 40 and r = 1]
  by (simp add: Dispenser_ctor_def getHopper_def getHopper_current_def setCurrentIndex_def
      nextIndex_def openDispenser_def closeDispenser_def addHopper_at_def addHopper_def
      int_add_def representable_def INT_MIN_def INT_MAX_def int_rem_def int_quot_def
      vector_insert_def size_invariant_def)


section \<open>Wrapping of the index\<close>

text \<open>
  C9, as the code has it. On a registry whose \<open>size\<close> is positive and equals the length of
  the sequence, and for integers \<open>i\<close> and \<open>k\<close> with \<open>i \<ge> 0\<close> and \<open>i + k * size \<ge> 0\<close>,
  \<open>getHopper(i)\<close> and \<open>getHopper(i + k * size)\<close> return the same handle, the one at position
  \<open>i mod size\<close>.
\<close>

theorem getHopper_wraps:
  assumes "size_invariant d" and "0 < size_field d"
    and "0 \<le> i" and "0 \<le> i + k * size_field d"
  shows "getHopper d i = Returns (hoppers d ! nat (i mod size_field d)) d
       \<and> getHopper d (i + k * size_field d) = getHopper d i"
proof -
  from assms have lo: "0 \<le> i mod size_field d"
    and hi: "i mod size_field d < int (length (hoppers d))"
    by (simp_all add: size_invariant_def)
  from assms have "size_field d \<noteq> 0" by simp
  with assms lo hi show ?thesis
    by (simp add: getHopper_def int_rem_nonneg vector_subscript_def)
qed

text \<open>The theorem at a registry of three hoppers, \<open>i = 7\<close> and \<open>k = -2\<close>.\<close>

theorem getHopper_wraps_witness:
  "size_invariant \<lparr>hoppers = [10, 20, 30 :: nat], size_field = 3, current_index = 0\<rparr>
   \<and> 0 < size_field \<lparr>hoppers = [10, 20, 30 :: nat], size_field = 3, current_index = 0\<rparr>
   \<and> (0 :: int) \<le> 7 \<and> (0 :: int) \<le> 7 + (- 2) * 3
   \<and> getHopper \<lparr>hoppers = [10, 20, 30 :: nat], size_field = 3, current_index = 0\<rparr> 7
       = Returns 20 \<lparr>hoppers = [10, 20, 30], size_field = 3, current_index = 0\<rparr>
   \<and> getHopper \<lparr>hoppers = [10, 20, 30 :: nat], size_field = 3, current_index = 0\<rparr>
       (7 + (- 2) * 3)
       = Returns 20 \<lparr>hoppers = [10, 20, 30], size_field = 3, current_index = 0\<rparr>"
  using getHopper_wraps
    [of "\<lparr>hoppers = [10, 20, 30 :: nat], size_field = 3, current_index = 0\<rparr>" 7 "- 2"]
  by (simp add: size_invariant_def)

text \<open>
  C9 as stated fails on a registry of three hoppers at \<open>i = 1\<close> and \<open>k = -1\<close>:
  \<open>getHopper(1)\<close> returns the second handle, while \<open>getHopper(-2)\<close> subscripts the vector
  with \<open>-2 % 3 = -2\<close>.
\<close>

theorem getHopper_wrap_counterexample:
  "getHopper \<lparr>hoppers = [10, 20, 30 :: nat], size_field = 3, current_index = 0\<rparr> 1
     = Returns 20 \<lparr>hoppers = [10, 20, 30], size_field = 3, current_index = 0\<rparr>
   \<and> getHopper \<lparr>hoppers = [10, 20, 30 :: nat], size_field = 3, current_index = 0\<rparr>
       (1 + (- 1) * 3)
     = Undefined InvalidSubscript"
  by (simp add: getHopper_def int_rem_def int_quot_def INT_MIN_def vector_subscript_def)


section \<open>Removal by handle\<close>

text \<open>
  C10. On a registry whose \<open>size\<close> is positive and equals the length of the sequence,
  \<open>removeHopper(hopper)\<close> with a handle that is not in the sequence erases the first
  element: the search ends at the end of the sequence, whose distance is \<open>size\<close>, and
  \<open>size % size\<close> is 0.
\<close>

theorem removeHopper_ptr_absent:
  assumes "size_invariant d" and "0 < size_field d" and "size_field d \<le> INT_MAX"
    and "hopper \<notin> set (hoppers d)"
  shows "int (find_distance (hoppers d) hopper) = size_field d
       \<and> int_rem (size_field d) (size_field d) = Inr 0
       \<and> removeHopper_ptr d hopper = Returns () (d\<lparr>hoppers := tl (hoppers d)\<rparr>)"
proof -
  from assms have dist: "int (find_distance (hoppers d) hopper) = size_field d"
    by (simp add: find_distance_absent size_invariant_def)
  from assms have narrow: "narrow_to_int (size_field d) = size_field d"
    by (simp add: narrow_to_int_def INT_MAX_def)
  from assms have rem: "int_rem (size_field d) (size_field d) = Inr 0"
    by (simp add: int_rem_nonneg)
  from assms have "hoppers d \<noteq> []" by (auto simp: size_invariant_def)
  then have "vector_erase (hoppers d) 0 = Inr (tl (hoppers d))"
    by (cases "hoppers d") (simp_all add: vector_erase_def)
  with dist narrow rem show ?thesis
    by (simp add: removeHopper_ptr_def removeHopper_def)
qed

text \<open>The theorem at a registry of three hoppers and a fourth handle.\<close>

theorem removeHopper_ptr_absent_witness:
  "size_invariant \<lparr>hoppers = [10, 20, 30 :: nat], size_field = 3, current_index = 0\<rparr>
   \<and> 0 < size_field \<lparr>hoppers = [10, 20, 30 :: nat], size_field = 3, current_index = 0\<rparr>
   \<and> size_field \<lparr>hoppers = [10, 20, 30 :: nat], size_field = 3, current_index = 0\<rparr> \<le> INT_MAX
   \<and> (99 :: nat) \<notin> set (hoppers \<lparr>hoppers = [10, 20, 30 :: nat], size_field = 3, current_index = 0\<rparr>)
   \<and> removeHopper_ptr \<lparr>hoppers = [10, 20, 30 :: nat], size_field = 3, current_index = 0\<rparr> 99
       = Returns () \<lparr>hoppers = [20, 30], size_field = 3, current_index = 0\<rparr>"
  using removeHopper_ptr_absent
    [of "\<lparr>hoppers = [10, 20, 30 :: nat], size_field = 3, current_index = 0\<rparr>" 99]
  by (simp add: size_invariant_def INT_MAX_def)

text \<open>
  A handle that is in the sequence is erased at its first occurrence, whatever its index;
  the other handles keep their order.
\<close>

lemma removeHopper_ptr_present:
  assumes "size_invariant d" and "size_field d \<le> INT_MAX"
    and "hopper \<in> set (hoppers d)"
  shows "removeHopper_ptr d hopper = Returns () (d\<lparr>hoppers := remove1 hopper (hoppers d)\<rparr>)"
proof -
  define k where "k = find_distance (hoppers d) hopper"
  from assms(3) have klt: "k < length (hoppers d)"
    and cut: "take k (hoppers d) @ drop (Suc k) (hoppers d) = remove1 hopper (hoppers d)"
    by (simp_all add: k_def find_distance_present)
  from klt assms have pos: "0 < size_field d" and small: "int k < size_field d"
    by (auto simp: size_invariant_def)
  from small assms have narrow: "narrow_to_int (int k) = int k"
    by (simp add: narrow_to_int_def INT_MAX_def)
  from pos small have rem: "int_rem (int k) (size_field d) = Inr (int k)"
    by (simp add: int_rem_nonneg)
  from klt cut have "vector_erase (hoppers d) (int k) = Inr (remove1 hopper (hoppers d))"
    by (simp add: vector_erase_def)
  with narrow rem show ?thesis
    by (simp add: removeHopper_ptr_def removeHopper_def k_def [symmetric])
qed


end
